theory Spec2Isabelle
  imports Complex_Main "HOL-Library.Product_Lexorder" "HOL-Library.List_Lexorder"
    "HOL-Library.Char_ord" "HOL-Library.Multiset"
begin

section \<open>Great-circle distance\<close>

text \<open>
  Python floats are modelled as real numbers: \<open>math.radians\<close>, \<open>math.sin\<close>,
  \<open>math.cos\<close>, \<open>math.asin\<close> and \<open>math.sqrt\<close> are the functions of real analysis.
  The not-a-number value only enters the program through the geocoder's table and is
  modelled there, as a separate cell value.
\<close>

definition radians :: "real \<Rightarrow> real" where
  "radians x = x * (pi / 180)"

text \<open>\<open>miles\<close> of \<open>pages/2_find_a_doctor.py\<close>.\<close>

definition miles :: "real \<Rightarrow> real \<Rightarrow> real \<Rightarrow> real \<Rightarrow> real" where
  "miles lat1 lon1 lat2 lon2 =
     (let r = 3958.8;
          phi1 = radians lat1; phi2 = radians lat2;
          dphi = radians (lat2 - lat1);
          dlmb = radians (lon2 - lon1);
          a = (sin (dphi / 2))\<^sup>2 + cos phi1 * cos phi2 * (sin (dlmb / 2))\<^sup>2
      in 2 * r * arcsin (sqrt a))"

text \<open>\<open>haversine_miles\<close> of \<open>pages/6_labs_nearby.py\<close>: the same body.\<close>

definition haversine_miles :: "real \<Rightarrow> real \<Rightarrow> real \<Rightarrow> real \<Rightarrow> real" where
  "haversine_miles lat1 lon1 lat2 lon2 =
     (let r = 3958.8;
          phi1 = radians lat1; phi2 = radians lat2;
          dphi = radians (lat2 - lat1);
          dlmb = radians (lon2 - lon1);
          a = (sin (dphi / 2))\<^sup>2 + cos phi1 * cos phi2 * (sin (dlmb / 2))\<^sup>2
      in 2 * r * arcsin (sqrt a))"

section \<open>Python strings and dictionaries\<close>

text \<open>
  A string is a list of characters, each a code point below 256. A JSON object whose
  values are strings is a map from keys to strings; a key may be absent. Values of another
  JSON type than the registry's schema gives (a null or a number where a string is expected)
  are outside the model.
\<close>

type_synonym sdict = "string \<rightharpoonup> string"

text \<open>\<open>d.get(k, default)\<close>\<close>

definition dget :: "sdict \<Rightarrow> string \<Rightarrow> string \<Rightarrow> string" where
  "dget d k dflt = (case d k of None \<Rightarrow> dflt | Some v \<Rightarrow> v)"

text \<open>\<open>str.isspace\<close> on one character, \<open>str.strip()\<close>, \<open>str.lower()\<close>.\<close>

definition isspace :: "char \<Rightarrow> bool" where
  "isspace c =
     (let n = (of_char c :: nat)
      in (9 \<le> n \<and> n \<le> 13) \<or> (28 \<le> n \<and> n \<le> 32) \<or> n = 133 \<or> n = 160)"

definition strip :: "string \<Rightarrow> string" where
  "strip s = rev (dropWhile isspace (rev (dropWhile isspace s)))"

definition lower_char :: "char \<Rightarrow> char" where
  "lower_char c =
     (let n = (of_char c :: nat)
      in if (65 \<le> n \<and> n \<le> 90) \<or> (192 \<le> n \<and> n \<le> 222 \<and> n \<noteq> 215)
         then char_of (n + 32) else c)"

definition lower :: "string \<Rightarrow> string" where
  "lower s = map lower_char s"

section \<open>Exceptions\<close>

text \<open>
  \<open>requests.HTTPError\<close> is a subclass of \<open>requests.RequestException\<close>;
  \<open>RequestException\<close> stands for every other exception of that class (connection
  failure, timeout) and \<open>OtherException\<close> for an exception outside it. The string
  is the exception's message.
\<close>

datatype exn = HTTPError string | RequestException string | OtherException string

section \<open>ZIP geocoder\<close>

text \<open>
  The record that \<open>pgeocode\<close>'s \<open>query_postal_code\<close> returns. A coordinate cell
  holds a number, the not-a-number value (the table has no entry), or something
  \<open>float()\<close> raises on. The state cell holds a string, not-a-number or \<open>None\<close>.
\<close>

datatype num_cell = Num real | NaN | NotNumeric

datatype str_cell = Str string | StrNaN | StrNone

record postal_rec =
  latitude :: num_cell
  longitude :: num_cell
  state_code :: str_cell

text \<open>\<open>float(x)\<close>: a number, not-a-number (\<open>None\<close> here), or an exception.\<close>

definition to_float :: "num_cell \<Rightarrow> exn + real option" where
  "to_float c =
     (case c of
        Num x \<Rightarrow> Inr (Some x)
      | NaN \<Rightarrow> Inr None
      | NotNumeric \<Rightarrow> Inl (OtherException ''TypeError''))"

text \<open>\<open>(rec.state_code or "").strip()\<close>: not-a-number is truthy and has no \<open>strip\<close>.\<close>

definition state_of :: "str_cell \<Rightarrow> exn + string" where
  "state_of c =
     (case c of
        Str s \<Rightarrow> Inr (strip s)
      | StrNone \<Rightarrow> Inr (strip [])
      | StrNaN \<Rightarrow> Inl (OtherException ''AttributeError''))"

text \<open>
  \<open>geocode_zip\<close> of \<open>pages/2_find_a_doctor.py\<close>. The lookup
  \<open>geocoder().query_postal_code(z)\<close> is the parameter \<open>q\<close>; it is called before the
  \<open>try\<close> block, so what it raises is raised by \<open>geocode_zip\<close>. Inside the block every
  exception gives \<open>None\<close>. The cache decorator memoises a deterministic function and is
  transparent.
\<close>

definition geocode_zip ::
  "(string \<Rightarrow> exn + postal_rec) \<Rightarrow> string \<Rightarrow> exn + (real \<times> real \<times> string) option" where
  "geocode_zip q z =
     (case q z of
        Inl e \<Rightarrow> Inl e
      | Inr rec \<Rightarrow>
          Inr (case to_float (latitude rec) of
                 Inl _ \<Rightarrow> None
               | Inr lat \<Rightarrow>
                   (case to_float (longitude rec) of
                      Inl _ \<Rightarrow> None
                    | Inr lon \<Rightarrow>
                        (case (lat, lon) of
                           (Some la, Some lo) \<Rightarrow>
                             (case state_of (state_code rec) of
                                Inl _ \<Rightarrow> None
                              | Inr st \<Rightarrow> Some (la, lo, st))
                         | _ \<Rightarrow> None))))"

section \<open>Provider registry records and their normalisation\<close>

text \<open>
  One record of the registry's \<open>results\<close> list. An absent key and an empty object or
  list read the same in the code (\<open>rec.get("basic", {}) or {}\<close>), so \<open>basic\<close>,
  \<open>addresses\<close> and \<open>taxonomies\<close> are total here; \<open>number\<close> is read with
  \<open>rec.get("number")\<close> and may be \<open>None\<close>. A taxonomy entry's \<open>primary\<close> is its
  truth value (absent reads as false).
\<close>

record tax_entry =
  primary :: bool
  desc :: "string option"
  code :: "string option"

record npi_record =
  number :: "string option"
  basic :: sdict
  addresses :: "sdict list"
  taxonomies :: "tax_entry list"

text \<open>The dictionary the page builds for each record (keys as fields; \<open>zip\<close> is \<open>zipcode\<close>).\<close>

record provider =
  name :: string
  npi :: "string option"
  taxonomy :: string
  phone :: string
  address :: string
  zipcode :: string
  distance_mi :: "real option"

text \<open>The address tagged \<open>location\<close> (any letter case), else the first, else \<open>{}\<close>.\<close>

definition pick_loc :: "sdict list \<Rightarrow> sdict" where
  "pick_loc addr_list =
     (case List.find (\<lambda>a. lower (dget a ''address_purpose'' []) = ''location'') addr_list of
        Some a \<Rightarrow> a
      | None \<Rightarrow> (case addr_list of [] \<Rightarrow> Map.empty | a # _ \<Rightarrow> a))"

text \<open>\<open>next((a.get("telephone_number") for a in addr_list if a.get("telephone_number")), None)\<close>\<close>

definition first_phone :: "sdict list \<Rightarrow> string option" where
  "first_phone addr_list =
     (case List.find (\<lambda>a. case a ''telephone_number'' of None \<Rightarrow> False | Some s \<Rightarrow> s \<noteq> [])
             addr_list of
        None \<Rightarrow> None
      | Some a \<Rightarrow> a ''telephone_number'')"

definition pick_phone :: "sdict \<Rightarrow> sdict list \<Rightarrow> string option" where
  "pick_phone loc addr_list =
     (case loc ''telephone_number'' of
        None \<Rightarrow> first_phone addr_list
      | Some s \<Rightarrow> if s \<noteq> [] then Some s else first_phone addr_list)"

text \<open>The entry flagged primary, else the first entry, else \<open>None\<close>.\<close>

definition pick_primary_tax :: "tax_entry list \<Rightarrow> tax_entry option" where
  "pick_primary_tax taxes =
     (case List.find primary taxes of
        Some t \<Rightarrow> Some t
      | None \<Rightarrow> (case taxes of [] \<Rightarrow> None | t # _ \<Rightarrow> Some t))"

text \<open>\<open>(primary_tax or {}).get("desc") or (primary_tax or {}).get("code") or ""\<close>\<close>

definition taxonomy_of :: "tax_entry option \<Rightarrow> string" where
  "taxonomy_of primary_tax =
     (let d = (case primary_tax of None \<Rightarrow> None | Some t \<Rightarrow> desc t);
          c = (case primary_tax of None \<Rightarrow> None | Some t \<Rightarrow> code t)
      in case d of
           Some s \<Rightarrow> if s \<noteq> [] then s else (case c of Some s' \<Rightarrow> s' | None \<Rightarrow> [])
         | None \<Rightarrow> (case c of Some s' \<Rightarrow> s' | None \<Rightarrow> []))"

text \<open>
  The display name: the stripped \<open>first_name last_name\<close> when that is not empty, else
  \<open>basic.get("organization_name", "(Provider)")\<close>.
\<close>

definition display_name :: "sdict \<Rightarrow> string" where
  "display_name b =
     (let person = strip (dget b ''first_name'' [] @ '' '' @ dget b ''last_name'' [])
      in if person \<noteq> [] then person else dget b ''organization_name'' ''(Provider)'')"

text \<open>
  \<open>round(x, 1)\<close>: the nearest multiple of one tenth, a tie going to the even digit.
\<close>

definition round_half_even :: "real \<Rightarrow> int" where
  "round_half_even x =
     (let f = \<lfloor>x\<rfloor>; d = x - of_int f
      in if d < 1 / 2 then f else if 1 / 2 < d then f + 1 else if even f then f else f + 1)"

definition round1 :: "real \<Rightarrow> real" where
  "round1 x = of_int (round_half_even (x * 10)) / 10"

text \<open>
  The body of the loop over \<open>results\<close>: one record to one row. Geocoding the provider's
  ZIP may raise what the lookup raises.
\<close>

definition build_row ::
  "(string \<Rightarrow> exn + postal_rec) \<Rightarrow> real \<Rightarrow> real \<Rightarrow> npi_record \<Rightarrow> exn + provider" where
  "build_row q u_lat u_lon rec =
     (let b = basic rec;
          addr_list = addresses rec;
          loc = pick_loc addr_list;
          zip5 = take 5 (dget loc ''postal_code'' [])
      in case (if zip5 \<noteq> [] then geocode_zip q zip5 else Inr None) of
           Inl e \<Rightarrow> Inl e
         | Inr latlon \<Rightarrow>
             (let dist = (case latlon of
                            None \<Rightarrow> None
                          | Some (la, lo, _) \<Rightarrow> Some (miles u_lat u_lon la lo));
                  ph = pick_phone loc addr_list;
                  primary_tax = pick_primary_tax (taxonomies rec)
              in Inr \<lparr> name = display_name b,
                       npi = number rec,
                       taxonomy = taxonomy_of primary_tax,
                       phone = (case ph of None \<Rightarrow> [] | Some s \<Rightarrow> s),
                       address = strip (dget loc ''address_1'' [] @ '' '' @ dget loc ''address_2'' []
                                   @ '', '' @ dget loc ''city'' [] @ '', '' @ dget loc ''state'' []
                                   @ '' '' @ zip5),
                       zipcode = zip5,
                       distance_mi = (case dist of None \<Rightarrow> None | Some d \<Rightarrow> Some (round1 d)) \<rparr>))"

fun build_rows ::
  "(string \<Rightarrow> exn + postal_rec) \<Rightarrow> real \<Rightarrow> real \<Rightarrow> npi_record list \<Rightarrow> provider list
     \<Rightarrow> exn + provider list" where
  "build_rows q u_lat u_lon [] rows = Inr rows"
| "build_rows q u_lat u_lon (rec # rest) rows =
     (case build_row q u_lat u_lon rec of
        Inl e \<Rightarrow> Inl e
      | Inr row \<Rightarrow> build_rows q u_lat u_lon rest (rows @ [row]))"

section \<open>Registry search and the radius filter\<close>

record npi_params =
  version :: string
  taxonomy_description :: string
  state :: string
  country_code :: string
  enumeration_type :: string
  limit :: int

text \<open>
  \<open>npi_search_state\<close>: the HTTP request, \<open>raise_for_status\<close> and the JSON decoding are
  the parameter \<open>api\<close>, which raises or returns the response's \<open>results\<close> list
  (an absent or null list reads as empty: \<open>data.get("results") or []\<close>).
\<close>

definition npi_search_state ::
  "(npi_params \<Rightarrow> exn + npi_record list) \<Rightarrow> string \<Rightarrow> string \<Rightarrow> string \<Rightarrow> int
     \<Rightarrow> exn + npi_record list" where
  "npi_search_state api taxonomy_desc st enum_type lmt =
     api \<lparr> version = ''2.1'', taxonomy_description = taxonomy_desc, state = st,
           country_code = ''US'', enumeration_type = enum_type,
           limit = min (max lmt 1) 1200 \<rparr>"

text \<open>
  The loop over the enumeration types. The first component of the result lists the
  enumeration types queried, in order; the second is the exception raised or
  \<open>all_hits\<close>.
\<close>

fun query_sources ::
  "(npi_params \<Rightarrow> exn + npi_record list) \<Rightarrow> (string \<Rightarrow> exn + postal_rec) \<Rightarrow> string \<Rightarrow> string
     \<Rightarrow> real \<Rightarrow> real \<Rightarrow> string list \<Rightarrow> provider list \<Rightarrow> string list \<times> (exn + provider list)" where
  "query_sources api q specialty_text st u_lat u_lon [] all_hits = ([], Inr all_hits)"
| "query_sources api q specialty_text st u_lat u_lon (enum # rest) all_hits =
     (case npi_search_state api specialty_text st enum 1200 of
        Inl e \<Rightarrow> ([enum], Inl e)
      | Inr results \<Rightarrow>
          if results = [] then
            apfst (Cons enum) (query_sources api q specialty_text st u_lat u_lon rest all_hits)
          else
            (case build_rows q u_lat u_lon results [] of
               Inl e \<Rightarrow> ([enum], Inl e)
             | Inr rows \<Rightarrow>
                 if all_hits @ rows \<noteq> [] then ([enum], Inr (all_hits @ rows))
                 else apfst (Cons enum)
                        (query_sources api q specialty_text st u_lat u_lon rest (all_hits @ rows))))"

text \<open>The values of the \<open>meta\<close> dictionary.\<close>

datatype mval = MStr string | MInt int

type_synonym meta = "string \<rightharpoonup> mval"

text \<open>
  Lines 192 to 194: the radius filter, the sort and the choice. \<open>list.sort(key=...)\<close> is a
  stable ascending sort, as \<open>sort_key\<close> is. The key is a pair of a number and a string;
  pairs compare lexicographically and strings by their code points, which is the order of
  the type \<open>real \<times> string\<close> here. The radius is the integer of the slider; \<open>1e9\<close> stands
  for a missing distance in the key.
\<close>

definition within_radius :: "int \<Rightarrow> provider \<Rightarrow> bool" where
  "within_radius radius p =
     (case distance_mi p of None \<Rightarrow> False | Some d \<Rightarrow> d \<le> of_int radius)"

definition sort_key_of :: "provider \<Rightarrow> real \<times> string" where
  "sort_key_of x = (case distance_mi x of Some d \<Rightarrow> d | None \<Rightarrow> 1000000000, name x)"

definition in_radius_of :: "int \<Rightarrow> provider list \<Rightarrow> provider list" where
  "in_radius_of radius all_hits = sort_key sort_key_of (filter (within_radius radius) all_hits)"

definition choose_hits :: "int \<Rightarrow> provider list \<Rightarrow> provider list" where
  "choose_hits radius all_hits =
     (let in_radius = in_radius_of radius all_hits
      in if in_radius \<noteq> [] then in_radius else all_hits)"

definition search_radius_by_state_then_filter ::
  "(npi_params \<Rightarrow> exn + npi_record list) \<Rightarrow> (string \<Rightarrow> exn + postal_rec) \<Rightarrow> string \<Rightarrow> int
     \<Rightarrow> string \<Rightarrow> string list \<times> (exn + provider list \<times> meta)" where
  "search_radius_by_state_then_filter api q user_zip radius specialty_text =
     (case geocode_zip q user_zip of
        Inl e \<Rightarrow> ([], Inl e)
      | Inr None \<Rightarrow> ([], Inr ([], [''reason'' \<mapsto> MStr ''Could not geolocate ZIP.'']))
      | Inr (Some (u_lat, u_lon, st)) \<Rightarrow>
          if st = [] then ([], Inr ([], [''reason'' \<mapsto> MStr ''Could not infer state from ZIP.'']))
          else
            (case query_sources api q specialty_text st u_lat u_lon [''NPI-1'', ''NPI-2''] [] of
               (queried, Inl e) \<Rightarrow> (queried, Inl e)
             | (queried, Inr all_hits) \<Rightarrow>
                 (queried,
                  Inr (choose_hits radius all_hits,
                       [''state'' \<mapsto> MStr st,
                        ''total_raw'' \<mapsto> MInt (int (length all_hits))]))))"

section \<open>The search button, the selection and the booking page\<close>

text \<open>
  The keys of Streamlit's session state that the pages read and write; \<open>None\<close> is an
  absent key.
\<close>

record session =
  providers :: "provider list option"
  providers_meta :: "meta option"
  search_zip :: "string option"
  search_radius :: "int option"
  search_specialty :: "string option"
  provider_radio :: "nat option"
  selected_doctor :: "provider option"
  symptoms_input :: "string option"
  condition_summary :: "string option"

text \<open>What a run of the page shows before it stops (\<open>st.warning\<close>, \<open>st.error\<close>, \<open>st.info\<close>).\<close>

datatype notice = Warning string | Error string | Info string | Results

definition store_results ::
  "provider list \<Rightarrow> meta \<Rightarrow> string \<Rightarrow> int \<Rightarrow> string \<Rightarrow> session \<Rightarrow> session" where
  "store_results ps m zip_code radius specialty s =
     s\<lparr> providers := Some ps, providers_meta := Some m, search_zip := Some zip_code,
        search_radius := Some radius, search_specialty := Some specialty,
        provider_radio := Some 0, selected_doctor := None \<rparr>"

text \<open>
  The handler of the search button. It catches \<open>requests.HTTPError\<close> and
  \<open>requests.RequestException\<close>; any other exception leaves the page uncaught.
\<close>

definition on_search ::
  "(npi_params \<Rightarrow> exn + npi_record list) \<Rightarrow> (string \<Rightarrow> exn + postal_rec) \<Rightarrow> string \<Rightarrow> string
     \<Rightarrow> int \<Rightarrow> session \<Rightarrow> exn + notice \<times> session" where
  "on_search api q zip_code specialty_in radius_mi s =
     (if zip_code = [] then Inr (Warning ''Please enter a valid 5-digit ZIP.'', s)
      else if strip specialty_in = [] then Inr (Warning ''Please enter a specialty.'', s)
      else
        (case snd (search_radius_by_state_then_filter api q zip_code radius_mi (strip specialty_in)) of
           Inl (HTTPError msg) \<Rightarrow> Inr (Error (''NPI Registry error: '' @ msg), s)
         | Inl (RequestException msg) \<Rightarrow>
             Inr (Error (''Network error querying NPI Registry: '' @ msg), s)
         | Inl (OtherException msg) \<Rightarrow> Inl (OtherException msg)
         | Inr (ps, m) \<Rightarrow>
             if ps = [] then
               Inr (Info ''No matches found. Try another specialty or a larger radius.'',
                    s\<lparr> providers := None, providers_meta := None \<rparr>)
             else Inr (Results, store_results ps m zip_code radius_mi (strip specialty_in) s)))"

text \<open>
  The radio button: index 0 is the "please select" label, index \<open>idx > 0\<close> is
  \<open>providers[idx - 1]\<close>. The widget only offers the indices of the labels; an index
  beyond them is an \<open>IndexError\<close>.
\<close>

definition select_provider :: "nat \<Rightarrow> session \<Rightarrow> exn + session" where
  "select_provider idx s =
     (case providers s of
        None \<Rightarrow> Inr s
      | Some ps \<Rightarrow>
          if idx = 0 then Inr (s\<lparr> provider_radio := Some idx, selected_doctor := None \<rparr>)
          else if idx - 1 < length ps then
            Inr (s\<lparr> provider_radio := Some idx, selected_doctor := Some (ps ! (idx - 1)) \<rparr>)
          else Inl (OtherException ''IndexError''))"

text \<open>What \<open>pages/4_book_appointment.py\<close> reads from the selected provider.\<close>

record booking =
  doc_name :: string
  doc_taxonomy :: string
  doc_phone :: string
  doc_address :: string
  doc_npi :: "string option"
  doc_zip :: string
  doc_distance :: "real option"

datatype stopped = NeedProvider | NeedSymptoms

definition truthy :: "string option \<Rightarrow> bool" where
  "truthy v = (case v of None \<Rightarrow> False | Some s \<Rightarrow> s \<noteq> [])"

text \<open>
  The rows have no \<open>specialty\<close> key, so
  \<open>get("taxonomy") or get("specialty") or "Provider"\<close> is the taxonomy or the default.
\<close>

definition book_appointment :: "session \<Rightarrow> stopped + booking" where
  "book_appointment s =
     (case selected_doctor s of
        None \<Rightarrow> Inl NeedProvider
      | Some d \<Rightarrow>
          if \<not> truthy (condition_summary s) \<or> \<not> truthy (symptoms_input s) then Inl NeedSymptoms
          else Inr \<lparr> doc_name = name d,
                     doc_taxonomy = (if taxonomy d \<noteq> [] then taxonomy d else ''Provider''),
                     doc_phone = phone d,
                     doc_address = address d,
                     doc_npi = npi d,
                     doc_zip = zipcode d,
                     doc_distance = distance_mi d \<rparr>)"

section \<open>Places search of the labs page\<close>

text \<open>
  One raw place of the Places API (keys \<open>place_id\<close>, \<open>name\<close>,
  \<open>geometry.location.lat\<close> and \<open>lng\<close>, \<open>vicinity\<close>, \<open>formatted_address\<close>,
  \<open>opening_hours.open_now\<close>) and the item the page makes of it (keys \<open>place_id\<close>,
  \<open>name\<close>, \<open>address\<close>, \<open>distance_mi\<close>, \<open>open_now\<close>, \<open>maps_url\<close>).
\<close>

record place =
  g_place_id :: "string option"
  g_name :: "string option"
  g_lat :: "real option"
  g_lng :: "real option"
  g_vicinity :: "string option"
  g_formatted_address :: "string option"
  g_open_now :: "bool option"

record lab =
  lab_place_id :: "string option"
  lab_name :: string
  lab_address :: string
  lab_distance_mi :: "real option"
  lab_open_now :: "bool option"
  lab_maps_url :: string

text \<open>\<open>urllib.parse.quote_plus\<close> on code points below 256 (UTF-8 takes two bytes from 128).\<close>

definition pct :: "nat \<Rightarrow> string" where
  "pct b = [CHR ''%'', ''0123456789ABCDEF'' ! (b div 16), ''0123456789ABCDEF'' ! (b mod 16)]"

definition quote_char :: "char \<Rightarrow> string" where
  "quote_char c =
     (let n = (of_char c :: nat)
      in if (48 \<le> n \<and> n \<le> 57) \<or> (65 \<le> n \<and> n \<le> 90) \<or> (97 \<le> n \<and> n \<le> 122)
            \<or> c \<in> set ''_.-~'' then [c]
         else if c = CHR '' '' then ''+''
         else if n < 128 then pct n
         else pct (192 + n div 64) @ pct (128 + n mod 64))"

definition quote_plus :: "string \<Rightarrow> string" where
  "quote_plus s = concat (map quote_char s)"

text \<open>\<open>v or d\<close> for a string \<open>v\<close> that may be \<open>None\<close>: \<open>None\<close> and \<open>""\<close> are falsy.\<close>

definition or_else :: "string option \<Rightarrow> string \<Rightarrow> string" where
  "or_else v d = (case v of None \<Rightarrow> d | Some s \<Rightarrow> if s \<noteq> [] then s else d)"

definition normalize_google_place :: "place \<Rightarrow> real \<Rightarrow> real \<Rightarrow> lab" where
  "normalize_google_place p lat0 lon0 =
     (let pid = g_place_id p;
          nm = or_else (g_name p) ''(Lab)'';
          dist = (case (g_lat p, g_lng p) of
                    (Some plat, Some plon) \<Rightarrow> Some (round1 (haversine_miles plat plon lat0 lon0))
                  | _ \<Rightarrow> None);
          addr = or_else (g_vicinity p) (or_else (g_formatted_address p) [])
      in \<lparr> lab_place_id = pid, lab_name = nm, lab_address = addr, lab_distance_mi = dist,
           lab_open_now = g_open_now p,
           lab_maps_url =
             (case pid of
                None \<Rightarrow> ''https://www.google.com/maps/search/?api=1&query='' @ quote_plus nm
              | Some i \<Rightarrow>
                  if i \<noteq> [] then ''https://www.google.com/maps/place/?q=place_id:'' @ i
                  else ''https://www.google.com/maps/search/?api=1&query='' @ quote_plus nm) \<rparr>)"


text \<open>
  The request parameters (\<open>radius_m\<close> is the key \<open>radius\<close>, \<open>ptype\<close> the key \<open>type\<close>;
  the API key is a constant of the deployment and is left out) and one page of the
  response.
\<close>

record places_params =
  location :: "real \<times> real"
  radius_m :: int
  ptype :: string
  keyword :: string
  pagetoken :: "string option"

record places_page =
  results :: "place list"
  next_page_token :: "string option"

datatype event = Sleep nat | Get places_params

text \<open>
  The \<open>while\<close> loop of \<open>places_nearby_labs\<close>. \<open>http\<close> is the request with its JSON
  decoding; it may raise. The first component of the result is what the loop did, in order:
  the sleeps and the requests. The page calls the function with its default
  \<open>max_pages = 3\<close>.
\<close>

function places_loop ::
  "(places_params \<Rightarrow> exn + places_page) \<Rightarrow> places_params \<Rightarrow> int \<Rightarrow> int \<Rightarrow> string option
     \<Rightarrow> place list \<Rightarrow> event list \<times> (exn + place list)" where
  "places_loop http params max_pages page token res =
     (if page < max_pages then
        (let params' = (if truthy token then params\<lparr> pagetoken := token \<rparr> else params);
             pre = (if truthy token then [Sleep 2] else [])
         in case http params' of
              Inl e \<Rightarrow> (pre @ [Get params'], Inl e)
            | Inr resp \<Rightarrow>
                if \<not> truthy (next_page_token resp)
                then (pre @ [Get params'], Inr (res @ results resp))
                else apfst (\<lambda>evs. pre @ Get params' # evs)
                       (places_loop http params' max_pages (page + 1) (next_page_token resp)
                          (res @ results resp)))
      else ([], Inr res))"
  by pat_completeness auto
termination
  by (relation "measure (\<lambda>(http, params, max_pages, page, token, res). nat (max_pages - page))")
    auto

definition places_nearby_labs ::
  "(places_params \<Rightarrow> exn + places_page) \<Rightarrow> real \<Rightarrow> real \<Rightarrow> int \<Rightarrow> int
     \<Rightarrow> event list \<times> (exn + place list)" where
  "places_nearby_labs http lat lon rad_m max_pages =
     places_loop http
       \<lparr> location = (lat, lon), radius_m = rad_m, ptype = ''health'',
         keyword = ''laboratory'', pagetoken = None \<rparr>
       max_pages 0 None []"

text \<open>
  Reading the record of a run: the requests in order; the record a run must have when each
  request that carries a page token is preceded by a sleep of 2 seconds and nothing else
  sleeps; whether each request but the last got a page with a token that the next request
  carries; the results of the page a request is answered with.
\<close>

fun requests_of :: "event list \<Rightarrow> places_params list" where
  "requests_of [] = []"
| "requests_of (Get p # evs) = p # requests_of evs"
| "requests_of (Sleep n # evs) = requests_of evs"

fun paced_log :: "places_params list \<Rightarrow> event list" where
  "paced_log [] = []"
| "paced_log (p # ps) =
     (if truthy (pagetoken p) then [Sleep 2, Get p] else [Get p]) @ paced_log ps"

fun chained :: "(places_params \<Rightarrow> exn + places_page) \<Rightarrow> places_params list \<Rightarrow> bool" where
  "chained http [] = True"
| "chained http [p] = True"
| "chained http (p # p' # ps) =
     ((case http p of
         Inl e \<Rightarrow> False
       | Inr pg \<Rightarrow> truthy (next_page_token pg) \<and> pagetoken p' = next_page_token pg)
      \<and> chained http (p' # ps))"

definition fetched :: "(places_params \<Rightarrow> exn + places_page) \<Rightarrow> places_params \<Rightarrow> place list" where
  "fetched http p = (case http p of Inl e \<Rightarrow> [] | Inr pg \<Rightarrow> results pg)"

section \<open>Sample inputs\<close>

text \<open>
  The longitude, in degrees, of the point on the equator that lies \<open>d\<close> miles east of
  longitude 0 on a sphere of radius 3958.8 miles.
\<close>

definition lon_at :: "real \<Rightarrow> real" where
  "lon_at d = d * 180 / (3958.8 * pi)"

text \<open>
  A geocoder table: the user's ZIP 10000 at latitude 0 and longitude 0, three ZIPs on the
  equator at 3.5, 12 and 25.04 miles from it, and no entry for any other code (the lookup
  then returns not-a-number in every cell).
\<close>

definition demo_geo :: "string \<Rightarrow> exn + postal_rec" where
  "demo_geo z =
     (if z = ''10000'' then
        Inr \<lparr> latitude = Num 0, longitude = Num 0, state_code = Str ''FL'' \<rparr>
      else if z = ''10003'' then
        Inr \<lparr> latitude = Num 0, longitude = Num (lon_at 3.5), state_code = Str ''FL'' \<rparr>
      else if z = ''10012'' then
        Inr \<lparr> latitude = Num 0, longitude = Num (lon_at 12), state_code = Str ''FL'' \<rparr>
      else if z = ''10025'' then
        Inr \<lparr> latitude = Num 0, longitude = Num (lon_at 25.04), state_code = Str ''FL'' \<rparr>
      else Inr \<lparr> latitude = NaN, longitude = NaN, state_code = StrNaN \<rparr>)"

text \<open>
  A registry record of a person with a first name and one location address that has only
  a postal code (no address at all when the code is empty), and the row the page builds
  from it.
\<close>

definition person :: "string \<Rightarrow> string \<Rightarrow> npi_record" where
  "person nm z =
     \<lparr> number = None, basic = [''first_name'' \<mapsto> nm],
       addresses = (if z = [] then []
                    else [[''address_purpose'' \<mapsto> ''LOCATION'', ''postal_code'' \<mapsto> z]]),
       taxonomies = [] \<rparr>"

definition person_row :: "string \<Rightarrow> string \<Rightarrow> real option \<Rightarrow> provider" where
  "person_row nm z d =
     \<lparr> name = nm, npi = None, taxonomy = [], phone = [],
       address = '', ,'' @ (if z = [] then [] else ''  '' @ z), zipcode = z, distance_mi = d \<rparr>"

text \<open>
  A registry with four individuals B (12 miles), A (3.5 miles), C (no postal code) and
  D (3.5 miles), in this order, and one organisation.
\<close>

definition four_api :: "npi_params \<Rightarrow> exn + npi_record list" where
  "four_api p =
     (if enumeration_type p = ''NPI-1'' then
        Inr [person ''B'' ''10012'', person ''A'' ''10003'', person ''C'' [],
             person ''D'' ''10003'']
      else Inr [\<lparr> number = None, basic = [''organization_name'' \<mapsto> ''Clinic''],
                  addresses = [], taxonomies = [] \<rparr>])"


text \<open>A registry that answers the query for individuals with an HTTP error status.\<close>

definition down_api :: "npi_params \<Rightarrow> exn + npi_record list" where
  "down_api p = Inl (HTTPError ''503 Server Error'')"

text \<open>A registry record of an organisation whose name is the empty string.\<close>

definition nameless_org :: npi_record where
  "nameless_org =
     \<lparr> number = Some ''1234567890'', basic = [''organization_name'' \<mapsto> []],
       addresses = [], taxonomies = [] \<rparr>"

text \<open>A geocoder whose lookup raises (the postal code table cannot be loaded).\<close>

definition broken_geo :: "string \<Rightarrow> exn + postal_rec" where
  "broken_geo z = Inl (OtherException ''URLError'')"

text \<open>A session in which the symptom checker has been completed.\<close>

definition fresh_session :: session where
  "fresh_session =
     \<lparr> providers = None, providers_meta = None, search_zip = None, search_radius = None,
       search_specialty = None, provider_radio = None, selected_doctor = None,
       symptoms_input = Some ''chest pain'', condition_summary = Some ''angina'' \<rparr>"

text \<open>
  A raw place with a name and nothing else, a Places service that always answers with one
  place and a further page token, and one whose first page has no token.
\<close>

definition named_place :: "string \<Rightarrow> place" where
  "named_place nm =
     \<lparr> g_place_id = Some nm, g_name = Some nm, g_lat = None, g_lng = None,
       g_vicinity = None, g_formatted_address = None, g_open_now = None \<rparr>"

definition endless_pages :: "places_params \<Rightarrow> exn + places_page" where
  "endless_pages p =
     (case pagetoken p of
        None \<Rightarrow> Inr \<lparr> results = [named_place ''a''], next_page_token = Some ''t1'' \<rparr>
      | Some t \<Rightarrow>
          if t = ''t1'' then Inr \<lparr> results = [named_place ''b''], next_page_token = Some ''t2'' \<rparr>
          else Inr \<lparr> results = [named_place ''c''], next_page_token = Some ''t3'' \<rparr>)"

definition single_page :: "places_params \<Rightarrow> exn + places_page" where
  "single_page p = Inr \<lparr> results = [named_place ''a''], next_page_token = None \<rparr>"

definition labs_params :: "string option \<Rightarrow> places_params" where
  "labs_params t =
     \<lparr> location = (0, 0), radius_m = 16093, ptype = ''health'', keyword = ''laboratory'',
       pagetoken = t \<rparr>"

section \<open>Properties of the distance\<close>






section \<open>Evaluating the sample inputs\<close>

lemma miles_equator:
  assumes "0 \<le> d" "d \<le> 7917.6"
  shows "miles 0 0 0 (lon_at d) = d"
proof -
  have r: "radians (lon_at d - 0) / 2 = d / 7917.6"
    by (simp add: radians_def lon_at_def field_simps)
  have lo: "0 \<le> d / 7917.6" using assms by simp
  have hi: "d / 7917.6 \<le> pi / 2" using assms pi_ge_two by (simp add: field_simps)
  have s: "0 \<le> sin (d / 7917.6)"
    using lo hi pi_ge_two by (intro sin_ge_zero) auto
  have "miles 0 0 0 (lon_at d) = 2 * 3958.8 * arcsin (sqrt ((sin (d / 7917.6))\<^sup>2))"
    unfolding miles_def Let_def r by (simp add: radians_def)
  also have "\<dots> = 2 * 3958.8 * arcsin (sin (d / 7917.6))"
    using s by simp
  also have "\<dots> = 2 * 3958.8 * (d / 7917.6)"
    using lo hi by (subst arcsin_sin) auto
  also have "\<dots> = d" by simp
  finally show ?thesis .
qed

lemma lower_LOCATION: "lower ''LOCATION'' = ''location''"
  by code_simp

lemma demo_geo_known:
  "geocode_zip demo_geo ''10000'' = Inr (Some (0, 0, ''FL''))"
  "geocode_zip demo_geo ''10003'' = Inr (Some (0, lon_at 3.5, ''FL''))"
  "geocode_zip demo_geo ''10012'' = Inr (Some (0, lon_at 12, ''FL''))"
  "geocode_zip demo_geo ''10025'' = Inr (Some (0, lon_at 25.04, ''FL''))"
  by (simp_all add: geocode_zip_def demo_geo_def to_float_def state_of_def strip_def isspace_def)

lemma build_person_known:
  "build_row demo_geo 0 0 (person ''B'' ''10012'') = Inr (person_row ''B'' ''10012'' (Some 12))"
  "build_row demo_geo 0 0 (person ''A'' ''10003'') = Inr (person_row ''A'' ''10003'' (Some 3.5))"
  "build_row demo_geo 0 0 (person ''D'' ''10003'') = Inr (person_row ''D'' ''10003'' (Some 3.5))"
  "build_row demo_geo 0 0 (person ''C'' []) = Inr (person_row ''C'' [] None)"
  "build_row demo_geo 0 0 (person ''E'' ''10025'') = Inr (person_row ''E'' ''10025'' (Some 25))"
  by (simp_all add: build_row_def person_def person_row_def pick_loc_def dget_def lower_LOCATION
      demo_geo_known miles_equator pick_phone_def first_phone_def pick_primary_tax_def
      taxonomy_of_def display_name_def strip_def isspace_def round1_def round_half_even_def Let_def)

lemma four_search_25:
  "search_radius_by_state_then_filter four_api demo_geo ''10000'' 25 ''Cardiology'' =
     ([''NPI-1''],
      Inr ([person_row ''A'' ''10003'' (Some 3.5), person_row ''D'' ''10003'' (Some 3.5),
            person_row ''B'' ''10012'' (Some 12)],
           [''state'' \<mapsto> MStr ''FL'', ''total_raw'' \<mapsto> MInt 4]))"
  by (simp add: search_radius_by_state_then_filter_def demo_geo_known npi_search_state_def
      four_api_def build_person_known choose_hits_def in_radius_of_def within_radius_def
      sort_key_of_def person_row_def)

lemma four_search_1:
  "search_radius_by_state_then_filter four_api demo_geo ''10000'' 1 ''Cardiology'' =
     ([''NPI-1''],
      Inr ([person_row ''B'' ''10012'' (Some 12), person_row ''A'' ''10003'' (Some 3.5),
            person_row ''C'' [] None, person_row ''D'' ''10003'' (Some 3.5)],
           [''state'' \<mapsto> MStr ''FL'', ''total_raw'' \<mapsto> MInt 4]))"
  by (simp add: search_radius_by_state_then_filter_def demo_geo_known npi_search_state_def
      four_api_def build_person_known choose_hits_def in_radius_of_def within_radius_def
      sort_key_of_def person_row_def)

section \<open>The loop over the registry's sources\<close>

lemma build_rows_acc:
  "build_rows q a b recs rows = Inr out \<Longrightarrow>
     \<exists>new. out = rows @ new \<and> map Inr new = map (build_row q a b) recs"
proof (induction recs arbitrary: rows)
  case Nil
  then show ?case by simp
next
  case (Cons r recs)
  from Cons.prems obtain row where row: "build_row q a b r = Inr row"
    and rest: "build_rows q a b recs (rows @ [row]) = Inr out"
    by (auto split: sum.splits)
  from Cons.IH [OF rest] obtain new where "out = (rows @ [row]) @ new"
    and "map Inr new = map (build_row q a b) recs"
    by blast
  then have "out = rows @ (row # new) \<and> map Inr (row # new) = map (build_row q a b) (r # recs)"
    using row by simp
  then show ?case by blast
qed

lemma build_rows_nonempty:
  assumes "build_rows q a b recs [] = Inr rows" and "recs \<noteq> []"
  shows "rows \<noteq> []"
proof -
  from build_rows_acc [OF assms(1)] obtain new where "rows = new"
    and m: "map Inr new = map (build_row q a b) recs"
    by auto
  from m have "length new = length recs"
    by (metis length_map)
  with assms(2) \<open>rows = new\<close> show ?thesis by auto
qed

lemma query_sources_first_hit:
  assumes "npi_search_state api txt st enum 1200 = Inr recs" and "recs \<noteq> []"
  shows "query_sources api q txt st a b (enum # rest) [] =
           ([enum], build_rows q a b recs [])"
proof (cases "build_rows q a b recs []")
  case (Inl e)
  with assms show ?thesis by simp
next
  case (Inr rows)
  with assms build_rows_nonempty [OF Inr assms(2)] show ?thesis by simp
qed

lemma query_sources_first_empty:
  assumes "npi_search_state api txt st enum 1200 = Inr []"
  shows "query_sources api q txt st a b (enum # rest) [] =
           apfst (Cons enum) (query_sources api q txt st a b rest [])"
  using assms by simp

lemma query_sources_first_raises:
  assumes "npi_search_state api txt st enum 1200 = Inl e"
  shows "query_sources api q txt st a b (enum # rest) hits = ([enum], Inl e)"
  using assms by simp

lemma set_choose_hits: "set (choose_hits radius all_hits) \<subseteq> set all_hits"
  by (auto simp: choose_hits_def in_radius_of_def Let_def)

text \<open>
  Claim C3. When the origin ZIP resolves to a state and the query for individuals (NPI-1)
  returns at least one record, only NPI-1 is queried, and the outcome is computed from its
  records alone: every returned provider is the row of one of them. The query for
  organisations (NPI-2) is not issued and nothing of it is merged in.
\<close>

theorem first_source_wins:
  assumes "geocode_zip q user_zip = Inr (Some (u_lat, u_lon, st))" and "st \<noteq> []"
    and "npi_search_state api txt st ''NPI-1'' 1200 = Inr recs" and "recs \<noteq> []"
  shows "search_radius_by_state_then_filter api q user_zip radius txt =
           ([''NPI-1''],
            case build_rows q u_lat u_lon recs [] of
              Inl e \<Rightarrow> Inl e
            | Inr rows \<Rightarrow>
                Inr (choose_hits radius rows,
                     [''state'' \<mapsto> MStr st, ''total_raw'' \<mapsto> MInt (int (length rows))]))
         \<and> (\<forall>ps m p. snd (search_radius_by_state_then_filter api q user_zip radius txt) = Inr (ps, m)
               \<and> p \<in> set ps \<longrightarrow> Inr p \<in> set (map (build_row q u_lat u_lon) recs))"
proof -
  have qs: "query_sources api q txt st u_lat u_lon [''NPI-1'', ''NPI-2''] [] =
              ([''NPI-1''], build_rows q u_lat u_lon recs [])"
    using assms(3,4) by (rule query_sources_first_hit)
  have main: "search_radius_by_state_then_filter api q user_zip radius txt =
           ([''NPI-1''],
            case build_rows q u_lat u_lon recs [] of
              Inl e \<Rightarrow> Inl e
            | Inr rows \<Rightarrow>
                Inr (choose_hits radius rows,
                     [''state'' \<mapsto> MStr st, ''total_raw'' \<mapsto> MInt (int (length rows))]))"
    unfolding search_radius_by_state_then_filter_def
    using assms(1,2) qs by (simp split: sum.splits)
  have "Inr p \<in> set (map (build_row q u_lat u_lon) recs)"
    if out: "snd (search_radius_by_state_then_filter api q user_zip radius txt) = Inr (ps, m)"
      and p: "p \<in> set ps" for ps m p
  proof -
    from out main obtain rows where rows: "build_rows q u_lat u_lon recs [] = Inr rows"
      and ps: "ps = choose_hits radius rows"
      by (auto split: sum.splits)
    from build_rows_acc [OF rows] have m: "map Inr rows = map (build_row q u_lat u_lon) recs"
      by auto
    from p ps set_choose_hits have "p \<in> set rows" by blast
    then have "(Inr p :: exn + provider) \<in> set (map Inr rows)" by simp
    then show ?thesis by (simp only: m)
  qed
  with main show ?thesis by blast
qed

theorem first_source_wins_witness:
  "search_radius_by_state_then_filter four_api demo_geo ''10000'' 25 ''Cardiology'' =
     ([''NPI-1''],
      Inr ([person_row ''A'' ''10003'' (Some 3.5), person_row ''D'' ''10003'' (Some 3.5),
            person_row ''B'' ''10012'' (Some 12)],
           [''state'' \<mapsto> MStr ''FL'', ''total_raw'' \<mapsto> MInt 4]))
   \<and> npi_search_state four_api ''Cardiology'' ''FL'' ''NPI-2'' 1200 =
       Inr [\<lparr> number = None, basic = [''organization_name'' \<mapsto> ''Clinic''],
              addresses = [], taxonomies = [] \<rparr>]"
proof -
  have g: "geocode_zip demo_geo ''10000'' = Inr (Some (0, 0, ''FL''))"
    by (rule demo_geo_known)
  have s: "''FL'' \<noteq> []" by simp
  have r: "npi_search_state four_api ''Cardiology'' ''FL'' ''NPI-1'' 1200 =
             Inr [person ''B'' ''10012'', person ''A'' ''10003'', person ''C'' [],
                  person ''D'' ''10003'']"
    by (simp add: npi_search_state_def four_api_def)
  have n: "[person ''B'' ''10012'', person ''A'' ''10003'', person ''C'' [],
            person ''D'' ''10003''] \<noteq> []"
    by simp
  have o: "npi_search_state four_api ''Cardiology'' ''FL'' ''NPI-2'' 1200 =
       Inr [\<lparr> number = None, basic = [''organization_name'' \<mapsto> ''Clinic''],
              addresses = [], taxonomies = [] \<rparr>]"
    by (simp add: npi_search_state_def four_api_def)
  from first_source_wins [OF g s r n, of 25] o show ?thesis
    by (simp add: build_person_known choose_hits_def in_radius_of_def within_radius_def
        sort_key_of_def person_row_def)
qed

section \<open>Errors of the registry\<close>

lemma query_sources_raise:
  "query_sources api q txt st a b enums hits = (queried, out) \<Longrightarrow> enum \<in> set queried \<Longrightarrow>
     npi_search_state api txt st enum 1200 = Inl e \<Longrightarrow> out = Inl e"
proof (induction enums arbitrary: hits queried out)
  case Nil
  then show ?case by simp
next
  case (Cons x enums)
  show ?case
  proof (cases "npi_search_state api txt st x 1200")
    case (Inl e')
    with Cons.prems show ?thesis by auto
  next
    case (Inr recs)
    show ?thesis
    proof (cases "recs = []")
      case True
      obtain l o' where rest: "query_sources api q txt st a b enums hits = (l, o')"
        by (cases "query_sources api q txt st a b enums hits")
      with Cons.prems(1) Inr True have "queried = x # l" and "out = o'"
        by auto
      with Cons.prems(2,3) Inr have "enum \<in> set l"
        by auto
      from Cons.IH [OF rest this Cons.prems(3)] \<open>out = o'\<close> show ?thesis
        by simp
    next
      case False
      show ?thesis
      proof (cases "build_rows q a b recs []")
        case (Inl e')
        with Cons.prems Inr False show ?thesis by auto
      next
        case rows: (Inr rows)
        from build_rows_nonempty [OF rows False] have "hits @ rows \<noteq> []"
          by simp
        with Cons.prems Inr False rows show ?thesis by auto
      qed
    qed
  qed
qed

text \<open>
  Claim C6. An exception raised by a registry query that the orchestrator issued is the
  outcome of the orchestrator: it is not caught and no result is returned in its place. The
  search button's handler receives it; it shows an HTTP error and any other request
  failure as an error message and lets every other exception pass.
\<close>

theorem source_errors_propagate:
  assumes "geocode_zip q user_zip = Inr (Some (u_lat, u_lon, st))" and "st \<noteq> []"
    and "search_radius_by_state_then_filter api q user_zip r (strip specialty_in) = (queried, out)"
    and "enum \<in> set queried"
    and "npi_search_state api (strip specialty_in) st enum 1200 = Inl e"
  shows "out = Inl e
         \<and> (user_zip \<noteq> [] \<and> strip specialty_in \<noteq> [] \<longrightarrow>
              on_search api q user_zip specialty_in r s =
                (case e of
                   HTTPError msg \<Rightarrow> Inr (Error (''NPI Registry error: '' @ msg), s)
                 | RequestException msg \<Rightarrow>
                     Inr (Error (''Network error querying NPI Registry: '' @ msg), s)
                 | OtherException msg \<Rightarrow> Inl (OtherException msg)))"
proof -
  obtain l o' where qs:
    "query_sources api q (strip specialty_in) st u_lat u_lon [''NPI-1'', ''NPI-2''] [] = (l, o')"
    by (cases "query_sources api q (strip specialty_in) st u_lat u_lon [''NPI-1'', ''NPI-2''] []")
  from assms(1,2,3) qs have "queried = l"
    by (auto simp: search_radius_by_state_then_filter_def split: sum.splits)
  with assms(4) have "enum \<in> set l" by simp
  from query_sources_raise [OF qs this assms(5)] have o': "o' = Inl e" .
  with assms(1,2,3) qs have out: "out = Inl e"
    by (auto simp: search_radius_by_state_then_filter_def)
  with assms(3) have
    "snd (search_radius_by_state_then_filter api q user_zip r (strip specialty_in)) = Inl e"
    by simp
  then have "user_zip \<noteq> [] \<and> strip specialty_in \<noteq> [] \<longrightarrow>
              on_search api q user_zip specialty_in r s =
                (case e of
                   HTTPError msg \<Rightarrow> Inr (Error (''NPI Registry error: '' @ msg), s)
                 | RequestException msg \<Rightarrow>
                     Inr (Error (''Network error querying NPI Registry: '' @ msg), s)
                 | OtherException msg \<Rightarrow> Inl (OtherException msg))"
    by (simp add: on_search_def split: exn.splits)
  with out show ?thesis by blast
qed

theorem source_errors_propagate_witness:
  "search_radius_by_state_then_filter down_api demo_geo ''10000'' 25 (strip ''Cardiology'') =
     ([''NPI-1''], Inl (HTTPError ''503 Server Error''))
   \<and> on_search down_api demo_geo ''10000'' ''Cardiology'' 25 fresh_session =
       Inr (Error ''NPI Registry error: 503 Server Error'', fresh_session)"
proof -
  have g: "geocode_zip demo_geo ''10000'' = Inr (Some (0, 0, ''FL''))"
    by (rule demo_geo_known)
  have s: "''FL'' \<noteq> []" by simp
  have run: "search_radius_by_state_then_filter down_api demo_geo ''10000'' 25
               (strip ''Cardiology'') = ([''NPI-1''], Inl (HTTPError ''503 Server Error''))"
    by (simp add: search_radius_by_state_then_filter_def demo_geo_known npi_search_state_def
        down_api_def)
  have m: "''NPI-1'' \<in> set [''NPI-1'']" by simp
  have e: "npi_search_state down_api (strip ''Cardiology'') ''FL'' ''NPI-1'' 1200 =
             Inl (HTTPError ''503 Server Error'')"
    by (simp add: npi_search_state_def down_api_def)
  have z: "''10000'' \<noteq> [] \<and> strip ''Cardiology'' \<noteq> []"
    by (simp add: strip_def isspace_def)
  from source_errors_propagate [OF g s run m e, of fresh_session] z run show ?thesis
    by simp
qed

section \<open>The radius filter and the order of the result\<close>





lemma search_from_hits:
  assumes "geocode_zip q user_zip = Inr (Some (u_lat, u_lon, st))" and "st \<noteq> []"
    and "query_sources api q txt st u_lat u_lon [''NPI-1'', ''NPI-2''] [] = (queried, Inr all_hits)"
  shows "search_radius_by_state_then_filter api q user_zip r txt =
           (queried,
            Inr (choose_hits r all_hits,
                 [''state'' \<mapsto> MStr st, ''total_raw'' \<mapsto> MInt (int (length all_hits))]))"
  using assms by (simp add: search_radius_by_state_then_filter_def)

lemma choose_hits_fallback:
  assumes "filter (within_radius r) all_hits = []"
  shows "choose_hits r all_hits = all_hits"
  using assms by (simp add: choose_hits_def in_radius_of_def)


text \<open>
  Claim C1, as amended. When the registry yielded candidates, the search returns the meta
  dictionary with the keys \<open>state\<close> and \<open>total_raw\<close> (the number of candidates before the
  filter) and no other key, whether or not a candidate is within the radius. When at least
  one candidate was found and none has a distance within the radius, the returned list is
  not empty and holds exactly the candidates found, each as often as it was found.
\<close>

theorem radius_fallback_keeps_all_candidates:
  assumes "geocode_zip q user_zip = Inr (Some (u_lat, u_lon, st))" and "st \<noteq> []"
    and "query_sources api q txt st u_lat u_lon [''NPI-1'', ''NPI-2''] [] = (queried, Inr all_hits)"
  shows "\<exists>ps m. search_radius_by_state_then_filter api q user_zip r txt = (queried, Inr (ps, m))
           \<and> m = [''state'' \<mapsto> MStr st, ''total_raw'' \<mapsto> MInt (int (length all_hits))]
           \<and> dom m = {''state'', ''total_raw''}
           \<and> (all_hits \<noteq> [] \<and> filter (within_radius r) all_hits = [] \<longrightarrow>
                ps \<noteq> [] \<and> mset ps = mset all_hits)"
proof -
  have "all_hits \<noteq> [] \<and> filter (within_radius r) all_hits = [] \<longrightarrow>
          choose_hits r all_hits \<noteq> [] \<and> mset (choose_hits r all_hits) = mset all_hits"
    by (simp add: choose_hits_fallback)
  moreover have "dom [''state'' \<mapsto> MStr st, ''total_raw'' \<mapsto> MInt (int (length all_hits))] =
                   {''state'', ''total_raw''}"
    by auto
  ultimately show ?thesis
    using search_from_hits [OF assms, of r] by blast
qed

lemma four_hits:
  "query_sources four_api demo_geo ''Cardiology'' ''FL'' 0 0 [''NPI-1'', ''NPI-2''] [] =
     ([''NPI-1''],
      Inr [person_row ''B'' ''10012'' (Some 12), person_row ''A'' ''10003'' (Some 3.5),
           person_row ''C'' [] None, person_row ''D'' ''10003'' (Some 3.5)])"
  by (simp add: npi_search_state_def four_api_def build_person_known)

theorem radius_fallback_keeps_all_candidates_witness:
  "filter (within_radius 1)
     [person_row ''B'' ''10012'' (Some 12), person_row ''A'' ''10003'' (Some 3.5),
      person_row ''C'' [] None, person_row ''D'' ''10003'' (Some 3.5)] = []
   \<and> (\<exists>ps. search_radius_by_state_then_filter four_api demo_geo ''10000'' 1 ''Cardiology'' =
             ([''NPI-1''],
              Inr (ps, [''state'' \<mapsto> MStr ''FL'', ''total_raw'' \<mapsto> MInt 4]))
           \<and> ps \<noteq> []
           \<and> mset ps =
               mset [person_row ''B'' ''10012'' (Some 12), person_row ''A'' ''10003'' (Some 3.5),
                     person_row ''C'' [] None, person_row ''D'' ''10003'' (Some 3.5)])"
proof -
  have g: "geocode_zip demo_geo ''10000'' = Inr (Some (0, 0, ''FL''))"
    by (rule demo_geo_known)
  have s: "''FL'' \<noteq> []" by simp
  have f: "filter (within_radius 1)
     [person_row ''B'' ''10012'' (Some 12), person_row ''A'' ''10003'' (Some 3.5),
      person_row ''C'' [] None, person_row ''D'' ''10003'' (Some 3.5)] = []"
    by (simp add: within_radius_def person_row_def)
  from radius_fallback_keeps_all_candidates [OF g s four_hits, of 1] f show ?thesis
    by auto
qed

text \<open>
  The claim as stated fails on the registry of four individuals. With radius 1 no
  candidate is within the radius and the search returns the candidates in the registry's
  order B (12.0), A (3.5), C (no distance), D (3.5), which is not the sorted order; and the
  meta dictionary is the one the search returns with radius 25, where three candidates are
  within the radius and no fallback occurs.
\<close>

theorem radius_fallback_counterexample:
  "filter (within_radius 1)
     [person_row ''B'' ''10012'' (Some 12), person_row ''A'' ''10003'' (Some 3.5),
      person_row ''C'' [] None, person_row ''D'' ''10003'' (Some 3.5)] = []
   \<and> snd (search_radius_by_state_then_filter four_api demo_geo ''10000'' 1 ''Cardiology'') =
       Inr ([person_row ''B'' ''10012'' (Some 12), person_row ''A'' ''10003'' (Some 3.5),
             person_row ''C'' [] None, person_row ''D'' ''10003'' (Some 3.5)],
            [''state'' \<mapsto> MStr ''FL'', ''total_raw'' \<mapsto> MInt 4])
   \<and> \<not> sorted (map sort_key_of
          [person_row ''B'' ''10012'' (Some 12), person_row ''A'' ''10003'' (Some 3.5),
           person_row ''C'' [] None, person_row ''D'' ''10003'' (Some 3.5)])
   \<and> filter (within_radius 25)
       [person_row ''B'' ''10012'' (Some 12), person_row ''A'' ''10003'' (Some 3.5),
        person_row ''C'' [] None, person_row ''D'' ''10003'' (Some 3.5)] \<noteq> []
   \<and> snd (search_radius_by_state_then_filter four_api demo_geo ''10000'' 25 ''Cardiology'') =
       Inr ([person_row ''A'' ''10003'' (Some 3.5), person_row ''D'' ''10003'' (Some 3.5),
             person_row ''B'' ''10012'' (Some 12)],
            [''state'' \<mapsto> MStr ''FL'', ''total_raw'' \<mapsto> MInt 4])"
  by (simp add: four_search_1 four_search_25)
    (simp add: within_radius_def sort_key_of_def person_row_def)







section \<open>Display names\<close>

lemma lab_name_nonempty: "lab_name (normalize_google_place p lat0 lon0) \<noteq> []"
  by (cases "g_name p") (simp_all add: normalize_google_place_def or_else_def Let_def)

lemma display_name_placeholder:
  assumes "strip (dget b ''first_name'' [] @ '' '' @ dget b ''last_name'' []) = []"
    and "b ''organization_name'' = None"
  shows "display_name b = ''(Provider)''"
  using assms by (simp add: display_name_def dget_def)

text \<open>
  Claim C4 fails on the registry path. For a record whose \<open>basic\<close> object has no person
  name and an \<open>organization_name\<close> that is the empty string, the display name is the
  empty string, not the placeholder: \<open>basic.get("organization_name", "(Provider)")\<close>
  takes the default only when the key is absent. The row built from the record has an
  empty \<open>name\<close>.
\<close>

theorem display_name_empty_for_blank_organization:
  "display_name (basic nameless_org) = []
   \<and> build_row demo_geo 0 0 nameless_org =
       Inr \<lparr> name = [], npi = Some ''1234567890'', taxonomy = [], phone = [],
             address = '', ,'', zipcode = [], distance_mi = None \<rparr>"
  by (simp add: nameless_org_def display_name_def build_row_def pick_loc_def dget_def
      pick_phone_def first_phone_def pick_primary_tax_def taxonomy_of_def strip_def
      isspace_def Let_def)

section \<open>Geocoding failures\<close>

lemma geocode_zip_no_record:
  assumes "q z = Inr rec" and "latitude rec = NaN \<or> longitude rec = NaN"
  shows "geocode_zip q z = Inr None"
  using assms by (auto simp: geocode_zip_def to_float_def split: num_cell.splits)

lemma geocode_zip_conversion_raises:
  assumes "q z = Inr rec"
    and "latitude rec = NotNumeric \<or> longitude rec = NotNumeric \<or> state_code rec = StrNaN"
  shows "geocode_zip q z = Inr None"
  using assms
  by (auto simp: geocode_zip_def to_float_def state_of_def split: num_cell.splits str_cell.splits)

lemma search_origin_not_found:
  assumes "geocode_zip q user_zip = Inr None"
  shows "search_radius_by_state_then_filter api q user_zip r txt =
           ([], Inr ([], [''reason'' \<mapsto> MStr ''Could not geolocate ZIP.'']))"
  using assms by (simp add: search_radius_by_state_then_filter_def)

text \<open>
  Claim C5 fails where the lookup itself raises. \<open>geocode_zip\<close> calls
  \<open>geocoder().query_postal_code(z)\<close> before its \<open>try\<close> block, so an exception of the
  lookup is raised by \<open>geocode_zip\<close>, by the orchestrator and, not being a
  \<open>requests\<close> exception, by the search button's handler.
\<close>

theorem lookup_exception_escapes_geocode_zip:
  "geocode_zip broken_geo ''33351'' = Inl (OtherException ''URLError'')
   \<and> search_radius_by_state_then_filter four_api broken_geo ''33351'' 25 ''Cardiology'' =
       ([], Inl (OtherException ''URLError''))
   \<and> on_search four_api broken_geo ''33351'' ''Cardiology'' 25 fresh_session =
       Inl (OtherException ''URLError'')"
  by (simp add: geocode_zip_def broken_geo_def search_radius_by_state_then_filter_def
      on_search_def strip_def isspace_def)

section \<open>Selection and booking\<close>

text \<open>
  Claim C9. After a search that returned providers, selecting the radio index
  \<open>idx\<close> with \<open>1 \<le> idx \<le> len(providers)\<close> stores \<open>providers[idx - 1]\<close> itself as
  \<open>selected_doctor\<close>, and the booking page reads name, phone, address, npi, zip and
  distance from that stored row as they are; it reads the taxonomy as it is, showing the
  word Provider when the taxonomy is empty.
\<close>

theorem selected_provider_handed_unchanged:
  assumes "snd (search_radius_by_state_then_filter api q zip_code r (strip specialty_in)) =
             Inr (ps, m)"
    and "zip_code \<noteq> []" and "strip specialty_in \<noteq> []"
    and "0 < idx" and "idx \<le> length ps"
    and "truthy (condition_summary s)" and "truthy (symptoms_input s)"
  shows "\<exists>s1 s2 b. on_search api q zip_code specialty_in r s = Inr (Results, s1)
           \<and> providers s1 = Some ps
           \<and> select_provider idx s1 = Inr s2
           \<and> selected_doctor s2 = Some (ps ! (idx - 1))
           \<and> book_appointment s2 = Inr b
           \<and> doc_name b = name (ps ! (idx - 1))
           \<and> doc_phone b = phone (ps ! (idx - 1))
           \<and> doc_address b = address (ps ! (idx - 1))
           \<and> doc_npi b = npi (ps ! (idx - 1))
           \<and> doc_zip b = zipcode (ps ! (idx - 1))
           \<and> doc_distance b = distance_mi (ps ! (idx - 1))
           \<and> doc_taxonomy b =
               (if taxonomy (ps ! (idx - 1)) \<noteq> [] then taxonomy (ps ! (idx - 1))
                else ''Provider'')"
proof -
  from assms(4,5) have ne: "ps \<noteq> []" by auto
  let ?s1 = "store_results ps m zip_code r (strip specialty_in) s"
  let ?s2 = "?s1\<lparr> provider_radio := Some idx, selected_doctor := Some (ps ! (idx - 1)) \<rparr>"
  have 1: "on_search api q zip_code specialty_in r s = Inr (Results, ?s1)"
    using assms(1,2,3) ne by (simp add: on_search_def)
  have 2: "providers ?s1 = Some ps"
    by (simp add: store_results_def)
  have 3: "select_provider idx ?s1 = Inr ?s2"
    using assms(4,5) 2 by (simp add: select_provider_def)
  have 4: "selected_doctor ?s2 = Some (ps ! (idx - 1))"
    by simp
  have 5: "book_appointment ?s2 =
             Inr \<lparr> doc_name = name (ps ! (idx - 1)),
                   doc_taxonomy = (if taxonomy (ps ! (idx - 1)) \<noteq> []
                                   then taxonomy (ps ! (idx - 1)) else ''Provider''),
                   doc_phone = phone (ps ! (idx - 1)),
                   doc_address = address (ps ! (idx - 1)),
                   doc_npi = npi (ps ! (idx - 1)),
                   doc_zip = zipcode (ps ! (idx - 1)),
                   doc_distance = distance_mi (ps ! (idx - 1)) \<rparr>"
    using assms(6,7) by (simp add: book_appointment_def store_results_def)
  show ?thesis
    using 1 2 3 4 5 by simp
qed

theorem selected_provider_handed_unchanged_witness:
  "\<exists>s1 s2. on_search four_api demo_geo ''10000'' ''Cardiology'' 25 fresh_session = Inr (Results, s1)
      \<and> select_provider 2 s1 = Inr s2
      \<and> selected_doctor s2 = Some (person_row ''D'' ''10003'' (Some 3.5))
      \<and> book_appointment s2 =
          Inr \<lparr> doc_name = ''D'', doc_taxonomy = ''Provider'', doc_phone = [],
                doc_address = '', ,  10003'', doc_npi = None, doc_zip = ''10003'',
                doc_distance = Some 3.5 \<rparr>"
proof -
  have c: "strip ''Cardiology'' = ''Cardiology''"
    by (simp add: strip_def isspace_def)
  have run: "snd (search_radius_by_state_then_filter four_api demo_geo ''10000'' 25
                    (strip ''Cardiology'')) =
       Inr ([person_row ''A'' ''10003'' (Some 3.5), person_row ''D'' ''10003'' (Some 3.5),
             person_row ''B'' ''10012'' (Some 12)],
            [''state'' \<mapsto> MStr ''FL'', ''total_raw'' \<mapsto> MInt 4])"
    by (simp add: c four_search_25)
  have z: "''10000'' \<noteq> []" by simp
  have t: "strip ''Cardiology'' \<noteq> []" by (simp add: c)
  have i: "(0 :: nat) < 2" by simp
  have l: "(2 :: nat) \<le> length [person_row ''A'' ''10003'' (Some 3.5),
             person_row ''D'' ''10003'' (Some 3.5), person_row ''B'' ''10012'' (Some 12)]"
    by simp
  have a: "truthy (condition_summary fresh_session)"
    by (simp add: fresh_session_def truthy_def)
  have b: "truthy (symptoms_input fresh_session)"
    by (simp add: fresh_session_def truthy_def)
  from selected_provider_handed_unchanged [OF run z t i l a b]
  obtain s1 s2 bk where
    1: "on_search four_api demo_geo ''10000'' ''Cardiology'' 25 fresh_session = Inr (Results, s1)"
    and 2: "select_provider 2 s1 = Inr s2"
    and 3: "selected_doctor s2 = Some (person_row ''D'' ''10003'' (Some 3.5))"
    and 4: "book_appointment s2 = Inr bk"
    and 5: "doc_name bk = ''D''" "doc_phone bk = []" "doc_address bk = '', ,  10003''"
       "doc_npi bk = None" "doc_zip bk = ''10003''" "doc_distance bk = Some 3.5"
       "doc_taxonomy bk = ''Provider''"
    by (auto simp: person_row_def)
  from 5 have "bk = \<lparr> doc_name = ''D'', doc_taxonomy = ''Provider'', doc_phone = [],
                doc_address = '', ,  10003'', doc_npi = None, doc_zip = ''10003'',
                doc_distance = Some 3.5 \<rparr>"
    by (cases bk) simp
  with 1 2 3 4 show ?thesis by blast
qed

section \<open>The paginated places search\<close>

lemma requests_of_append: "requests_of (xs @ ys) = requests_of xs @ requests_of ys"
  by (induction xs rule: requests_of.induct) simp_all

lemma places_loop_done:
  "\<not> page < mp \<Longrightarrow> places_loop http params mp page token res = ([], Inr res)"
  by (subst places_loop.simps) simp

lemma places_loop_raise:
  assumes "page < mp"
    and "p = (if truthy token then params\<lparr> pagetoken := token \<rparr> else params)"
    and "http p = Inl e"
  shows "places_loop http params mp page token res =
           ((if truthy token then [Sleep 2] else []) @ [Get p], Inl e)"
  using assms by (subst places_loop.simps) (simp add: Let_def)

lemma places_loop_last:
  assumes "page < mp"
    and "p = (if truthy token then params\<lparr> pagetoken := token \<rparr> else params)"
    and "http p = Inr pg" and "\<not> truthy (next_page_token pg)"
  shows "places_loop http params mp page token res =
           ((if truthy token then [Sleep 2] else []) @ [Get p], Inr (res @ results pg))"
  using assms by (subst places_loop.simps) (simp add: Let_def)

lemma places_loop_more:
  assumes "page < mp"
    and "p = (if truthy token then params\<lparr> pagetoken := token \<rparr> else params)"
    and "http p = Inr pg" and "truthy (next_page_token pg)"
  shows "places_loop http params mp page token res =
           apfst (\<lambda>evs. (if truthy token then [Sleep 2] else []) @ Get p # evs)
             (places_loop http p mp (page + 1) (next_page_token pg) (res @ results pg))"
  using assms by (subst places_loop.simps) (simp add: Let_def)

lemma places_loop_inv:
  assumes "places_loop http params mp page token res = (evs, out)"
    and "truthy token \<or> \<not> truthy (pagetoken params)"
  shows "length (requests_of evs) \<le> nat (mp - page)
         \<and> (page < mp \<longrightarrow> requests_of evs \<noteq> [])
         \<and> evs = paced_log (requests_of evs)
         \<and> chained http (requests_of evs)
         \<and> (requests_of evs \<noteq> [] \<longrightarrow>
              pagetoken (hd (requests_of evs)) = (if truthy token then token else pagetoken params))
         \<and> (\<forall>pg. requests_of evs \<noteq> [] \<and> http (last (requests_of evs)) = Inr pg
                \<and> truthy (next_page_token pg) \<longrightarrow> length (requests_of evs) = nat (mp - page))
         \<and> (\<forall>r. out = Inr r \<longrightarrow> r = res @ concat (map (fetched http) (requests_of evs)))"
  using assms
proof (induction http params mp page token res arbitrary: evs out rule: places_loop.induct)
  case (1 http params mp page token res)
  define p where "p = (if truthy token then params\<lparr> pagetoken := token \<rparr> else params)"
  define pre where "pre = (if truthy token then [Sleep 2] else [])"
  have tok: "truthy (pagetoken p) \<longleftrightarrow> truthy token"
    using "1.prems"(2) by (auto simp: p_def)
  have ptok: "pagetoken p = (if truthy token then token else pagetoken params)"
    by (simp add: p_def)
  have req1: "requests_of (pre @ [Get p]) = [p]"
    by (simp add: pre_def)
  have log1: "pre @ [Get p] = paced_log [p]"
    using tok by (simp add: pre_def)
  show ?case
  proof (cases "page < mp")
    case False
    with "1.prems"(1) have "evs = []" and "out = Inr res"
      by (simp_all add: places_loop_done)
    with False show ?thesis by simp
  next
    case True
    then have one: "1 \<le> nat (mp - page)" by simp
    show ?thesis
    proof (cases "http p")
      case (Inl e)
      from places_loop_raise [where http = http and res = res, OF True p_def Inl] "1.prems"(1)
      have "evs = pre @ [Get p]" and "out = Inl e"
        by (simp_all add: pre_def)
      with req1 log1 one ptok Inl show ?thesis by simp
    next
      case (Inr pg)
      show ?thesis
      proof (cases "truthy (next_page_token pg)")
        case False
        from places_loop_last [where http = http and res = res, OF True p_def Inr False] "1.prems"(1)
        have "evs = pre @ [Get p]" and "out = Inr (res @ results pg)"
          by (simp_all add: pre_def)
        with req1 log1 one ptok Inr False show ?thesis
          by (simp add: fetched_def)
      next
        case more: True
        obtain evs' out' where rec:
          "places_loop http p mp (page + 1) (next_page_token pg) (res @ results pg) = (evs', out')"
          by (cases "places_loop http p mp (page + 1) (next_page_token pg) (res @ results pg)")
        from places_loop_more [where http = http and res = res, OF True p_def Inr more] "1.prems"(1) rec
        have evs: "evs = pre @ Get p # evs'" and out: "out = out'"
          by (simp_all add: pre_def)
        have notnot: "\<not> \<not> truthy (next_page_token pg)" using more by simp
        have inv': "truthy (next_page_token pg) \<or> \<not> truthy (pagetoken p)"
          using more by simp
        note IH = "1.IH" [OF True p_def pre_def Inr notnot rec inv']
        let ?rs = "requests_of evs'"
        have reqs: "requests_of evs = p # ?rs"
          by (simp add: evs pre_def requests_of_append)
        have step: "nat (mp - page) = Suc (nat (mp - (page + 1)))"
          using \<open>page < mp\<close> by arith
        have ih1: "length ?rs \<le> nat (mp - (page + 1))"
          using IH by blast
        have ih2: "page + 1 < mp \<longrightarrow> ?rs \<noteq> []"
          using IH by blast
        have ih3: "evs' = paced_log ?rs"
          using IH by blast
        have ih4: "chained http ?rs"
          using IH by blast
        have ih5: "?rs \<noteq> [] \<longrightarrow> pagetoken (hd ?rs) = next_page_token pg"
          using IH more by simp
        have ih6: "length ?rs = nat (mp - (page + 1))"
          if "?rs \<noteq> []" and "http (last ?rs) = Inr pg'" and "truthy (next_page_token pg')"
          for pg'
          using IH that by blast
        have ih7: "r = (res @ results pg) @ concat (map (fetched http) ?rs)"
          if "out' = Inr r" for r
          using IH that by simp
        have a: "length (requests_of evs) \<le> nat (mp - page)"
          using ih1 by (simp add: reqs step)
        have b: "evs = paced_log (requests_of evs)"
        proof -
          have "paced_log (p # ?rs) = (pre @ [Get p]) @ paced_log ?rs"
            using tok by (simp add: pre_def)
          also have "\<dots> = pre @ Get p # evs'"
            using ih3 by simp
          finally have "paced_log (p # ?rs) = evs" by (simp only: evs)
          then show ?thesis by (simp only: reqs)
        qed
        have c: "chained http (requests_of evs)"
        proof (cases ?rs)
          case Nil
          then show ?thesis by (simp add: reqs)
        next
          case (Cons p' ps)
          with ih5 have "pagetoken p' = next_page_token pg" by simp
          moreover from ih4 Cons have "chained http (p' # ps)" by simp
          ultimately show ?thesis
            using Inr more by (simp add: reqs Cons)
        qed
        have d: "pagetoken (hd (requests_of evs)) =
                   (if truthy token then token else pagetoken params)"
          by (simp add: reqs ptok)
        have e: "length (requests_of evs) = nat (mp - page)"
          if l: "http (last (requests_of evs)) = Inr pg'" and t: "truthy (next_page_token pg')"
          for pg'
        proof (cases "?rs = []")
          case True
          with ih2 have "\<not> page + 1 < mp" by blast
          then have "nat (mp - (page + 1)) = 0" by simp
          with True show ?thesis by (simp add: reqs step)
        next
          case False
          with l have "http (last ?rs) = Inr pg'" by (simp add: reqs)
          from ih6 [OF False this t] show ?thesis by (simp add: reqs step)
        qed
        have f: "r = res @ concat (map (fetched http) (requests_of evs))" if "out = Inr r" for r
        proof -
          from that out have "out' = Inr r" by simp
          from ih7 [OF this] show ?thesis
            using Inr by (simp add: reqs fetched_def)
        qed
        have ne: "requests_of evs \<noteq> []"
          by (simp add: reqs)
        show ?thesis
        proof (intro conjI allI impI)
          show "length (requests_of evs) \<le> nat (mp - page)" by (rule a)
          show "requests_of evs \<noteq> []" by (rule ne)
          show "evs = paced_log (requests_of evs)" by (rule b)
          show "chained http (requests_of evs)" by (rule c)
          show "pagetoken (hd (requests_of evs)) =
                  (if truthy token then token else pagetoken params)" by (rule d)
        next
          fix pg'
          assume "requests_of evs \<noteq> [] \<and> http (last (requests_of evs)) = Inr pg'
                    \<and> truthy (next_page_token pg')"
          then show "length (requests_of evs) = nat (mp - page)"
            using e by blast
        next
          fix r
          assume "out = Inr r"
          then show "r = res @ concat (map (fetched http) (requests_of evs))"
            by (rule f)
        qed
      qed
    qed
  qed
qed

text \<open>
  Claim C7. \<open>places_nearby_labs\<close> is a total function: the loop's measure
  \<open>max_pages - page\<close> decreases with every request. A run issues at most \<open>max_pages\<close>
  requests (three with the page's default); its record is exactly the requests with a
  sleep of 2 seconds before each request that carries a page token, the first request
  carrying none; every request but the last was answered with a page holding a token,
  which the next request carries; a run whose last page still holds a token has issued
  \<open>max_pages\<close> requests; and the returned list is the concatenation of the fetched
  pages' results in order.
\<close>

theorem places_search_bounded_and_paced:
  assumes "places_nearby_labs http lat lon rad_m max_pages = (evs, out)"
  shows "length (requests_of evs) \<le> nat max_pages
         \<and> (max_pages = 3 \<longrightarrow> length (requests_of evs) \<le> 3)
         \<and> evs = paced_log (requests_of evs)
         \<and> (requests_of evs \<noteq> [] \<longrightarrow> pagetoken (hd (requests_of evs)) = None)
         \<and> chained http (requests_of evs)
         \<and> (\<forall>pg. requests_of evs \<noteq> [] \<and> http (last (requests_of evs)) = Inr pg
                \<and> truthy (next_page_token pg) \<longrightarrow> length (requests_of evs) = nat max_pages)
         \<and> (\<forall>r. out = Inr r \<longrightarrow> r = concat (map (fetched http) (requests_of evs)))"
proof -
  let ?params = "\<lparr> location = (lat, lon), radius_m = rad_m, ptype = ''health'',
                   keyword = ''laboratory'', pagetoken = None \<rparr>"
  have run: "places_loop http ?params max_pages 0 None [] = (evs, out)"
    using assms by (simp add: places_nearby_labs_def)
  have start: "truthy None \<or> \<not> truthy (pagetoken ?params)"
    by (simp add: truthy_def)
  have nt: "\<not> truthy None"
    by (simp add: truthy_def)
  from places_loop_inv [OF run start] nt
  have inv: "length (requests_of evs) \<le> nat max_pages
         \<and> evs = paced_log (requests_of evs)
         \<and> chained http (requests_of evs)
         \<and> (requests_of evs \<noteq> [] \<longrightarrow> pagetoken (hd (requests_of evs)) = None)
         \<and> (\<forall>pg. requests_of evs \<noteq> [] \<and> http (last (requests_of evs)) = Inr pg
                \<and> truthy (next_page_token pg) \<longrightarrow> length (requests_of evs) = nat max_pages)
         \<and> (\<forall>r. out = Inr r \<longrightarrow> r = concat (map (fetched http) (requests_of evs)))"
    by simp
  then have "max_pages = 3 \<longrightarrow> length (requests_of evs) \<le> 3"
    by auto
  with inv show ?thesis by blast
qed

lemma endless_pages_run:
  "places_nearby_labs endless_pages 0 0 16093 3 =
     ([Get (labs_params None), Sleep 2, Get (labs_params (Some ''t1'')), Sleep 2,
       Get (labs_params (Some ''t2''))],
      Inr [named_place ''a'', named_place ''b'', named_place ''c''])"
  by (simp add: places_nearby_labs_def places_loop.simps endless_pages_def labs_params_def
      truthy_def Let_def)

lemma single_page_run:
  "places_nearby_labs single_page 0 0 16093 3 =
     ([Get (labs_params None)], Inr [named_place ''a''])"
  by (simp add: places_nearby_labs_def places_loop.simps single_page_def labs_params_def
      truthy_def Let_def)

theorem places_search_bounded_and_paced_witness:
  "places_nearby_labs endless_pages 0 0 16093 3 =
     ([Get (labs_params None), Sleep 2, Get (labs_params (Some ''t1'')), Sleep 2,
       Get (labs_params (Some ''t2''))],
      Inr [named_place ''a'', named_place ''b'', named_place ''c''])
   \<and> length (requests_of [Get (labs_params None), Sleep 2, Get (labs_params (Some ''t1'')),
                            Sleep 2, Get (labs_params (Some ''t2''))]) = 3
   \<and> endless_pages (labs_params (Some ''t2'')) =
       Inr \<lparr> results = [named_place ''c''], next_page_token = Some ''t3'' \<rparr>
   \<and> places_nearby_labs single_page 0 0 16093 3 =
       ([Get (labs_params None)], Inr [named_place ''a''])"
proof -
  have l: "endless_pages (labs_params (Some ''t2'')) =
       Inr \<lparr> results = [named_place ''c''], next_page_token = Some ''t3'' \<rparr>"
    by (simp add: endless_pages_def labs_params_def)
  from places_search_bounded_and_paced [OF endless_pages_run]
    places_search_bounded_and_paced [OF single_page_run]
    endless_pages_run single_page_run l
  show ?thesis by simp
qed

end
